theory Spec2Isabelle
  imports Complex_Main
begin

section \<open>Recursive filters: a shallow embedding of filters.py\<close>

text \<open>
  The module defines three stateful filters: \<^verbatim>\<open>LP_first_order\<close>, \<^verbatim>\<open>LP_second_order\<close> and
  \<^verbatim>\<open>Moving_average\<close>. Each object is modelled as a record of its attributes, each method
  as a function that takes the object and returns the object after the call together with
  the value returned. An exception is a value of \<open>py_error\<close>.

  The methods are embedded twice. In this first part the numbers are real numbers and
  \<^verbatim>\<open>+\<close>, \<^verbatim>\<open>-\<close>, \<^verbatim>\<open>*\<close>, \<^verbatim>\<open>/\<close>, \<^verbatim>\<open>math.tan\<close> and \<^verbatim>\<open>math.exp\<close> are the exact operations on \<open>real\<close>:
  the module in exact arithmetic. It carries the properties that do not depend on the
  arithmetic: the order in which a call feeds its elements, what \<^verbatim>\<open>reset\<close> changes, what a
  call leaves as it is, the failure of an unknown transform. In the second part the
  numbers are Python's \<^verbatim>\<open>int\<close> and \<^verbatim>\<open>float\<close>, with the rounding, the infinities and the
  exceptions of each operation. It carries the properties that depend on the arithmetic:
  the coefficients that a construction stores, the parameters that it accepts, the mean
  that the moving average returns and the response to a constant input.

  The window length \<^verbatim>\<open>N\<close> and the cursor \<^verbatim>\<open>_i\<close> are Python integers, modelled as \<open>int\<close>.

  Python attribute names begin with an underscore, which an Isabelle name cannot; the
  fields carry the prefix \<open>lp1_\<close>, \<open>lp2_\<close> or \<open>ma_\<close> of their class instead, and \<open>py1_\<close>,
  \<open>py2_\<close> or \<open>pma_\<close> in the second part.
\<close>

subsection \<open>Exceptions, division, indexing\<close>

datatype py_error =
    AttributeError string  \<comment> \<open>\<^verbatim>\<open>getattr\<close> found no attribute of that name\<close>
  | ZeroDivisionError      \<comment> \<open>\<^verbatim>\<open>/\<close> with a zero divisor\<close>
  | IndexError             \<comment> \<open>list index out of range\<close>
  | OverflowError          \<comment> \<open>a result or a conversion outside the range of \<^verbatim>\<open>float\<close> or of a list length\<close>
  | ValueError             \<comment> \<open>\<^verbatim>\<open>math.tan\<close> of an infinity\<close>

text \<open>Python's \<^verbatim>\<open>a / b\<close> raises on a zero divisor, where HOL's division returns 0.\<close>

definition truediv :: "real \<Rightarrow> real \<Rightarrow> py_error + real" where
  "truediv a b = (if b = 0 then Inl ZeroDivisionError else Inr (a / b))"

text \<open>
  The position that \<^verbatim>\<open>xs[k]\<close> denotes: a negative index counts from the end, and an
  index outside the list raises.
\<close>

definition list_index :: "'a list \<Rightarrow> int \<Rightarrow> py_error + nat" where
  "list_index xs k =
     (let n = int (length xs);
          j = (if k < 0 then n + k else k)
      in if 0 \<le> j \<and> j < n then Inr (nat j) else Inl IndexError)"

text \<open>
  The argument of \<^verbatim>\<open>__call__\<close> is either one number or an iterable of numbers
  (\<^verbatim>\<open>isinstance(input, collections.abc.Iterable)\<close>); the result is one number or a list.
\<close>

datatype py_input = Scalar real | Iterable "real list"

datatype py_output = Float real | PyList "real list"

subsection \<open>First order low-pass filter\<close>

record LP_first_order =
  lp1_Cy1 :: real
  lp1_Cx0 :: real
  lp1_Cx1 :: real
  lp1_y_k1 :: real
  lp1_x_k1 :: real

text \<open>
  The object before \<^verbatim>\<open>__init__\<close> has run has no attribute. Every field is assigned
  before a construction returns, so the values chosen here are never read.
\<close>

definition LP_first_order_new :: LP_first_order where
  "LP_first_order_new =
     \<lparr>lp1_Cy1 = 0, lp1_Cx0 = 0, lp1_Cx1 = 0, lp1_y_k1 = 0, lp1_x_k1 = 0\<rparr>"

definition LP_first_order_reset :: "LP_first_order \<Rightarrow> LP_first_order" where
  "LP_first_order_reset self = self\<lparr>lp1_y_k1 := 0, lp1_x_k1 := 0\<rparr>"

text \<open>
  The four derivations of the coefficients, statement by statement. A division raises
  before the attribute on its left is assigned. \<^verbatim>\<open>math.tan\<close> and \<^verbatim>\<open>math.exp\<close> raise nothing
  on a finite argument; \<open>tan\<close> is the quotient of \<open>sin\<close> and \<open>cos\<close>, which HOL sets to zero
  at the poles, where the floating point function returns a large number.
\<close>

definition LP_first_order_init_bilinear ::
    "LP_first_order \<Rightarrow> real \<Rightarrow> real \<Rightarrow> py_error + LP_first_order" where
  "LP_first_order_init_bilinear self Te wc =
     (case truediv (2 - wc * Te) (2 + wc * Te) of
        Inl e \<Rightarrow> Inl e
      | Inr v \<Rightarrow>
          (let self = self\<lparr>lp1_Cy1 := v\<rparr>
           in case truediv (wc * Te) (2 + wc * Te) of
                Inl e \<Rightarrow> Inl e
              | Inr v \<Rightarrow>
                  (let self = self\<lparr>lp1_Cx0 := v\<rparr>;
                       self = self\<lparr>lp1_Cx1 := lp1_Cx0 self\<rparr>
                   in Inr self)))"

definition LP_first_order_init_homographic ::
    "LP_first_order \<Rightarrow> real \<Rightarrow> real \<Rightarrow> py_error + LP_first_order" where
  "LP_first_order_init_homographic self Te wc =
     (let twt = tan (wc * Te / 2) in
      case truediv (1 - twt) (1 + twt) of
        Inl e \<Rightarrow> Inl e
      | Inr v \<Rightarrow>
          (let self = self\<lparr>lp1_Cy1 := v\<rparr>
           in case truediv twt (1 + twt) of
                Inl e \<Rightarrow> Inl e
              | Inr v \<Rightarrow>
                  (let self = self\<lparr>lp1_Cx0 := v\<rparr>;
                       self = self\<lparr>lp1_Cx1 := lp1_Cx0 self\<rparr>
                   in Inr self)))"

definition LP_first_order_init_step_matching ::
    "LP_first_order \<Rightarrow> real \<Rightarrow> real \<Rightarrow> py_error + LP_first_order" where
  "LP_first_order_init_step_matching self Te wc =
     (let ewt = exp (- wc * Te);
          self = self\<lparr>lp1_Cy1 := ewt\<rparr>;
          self = self\<lparr>lp1_Cx0 := 0\<rparr>;
          self = self\<lparr>lp1_Cx1 := 1 - ewt\<rparr>
      in Inr self)"

definition LP_first_order_init_impulse_matching ::
    "LP_first_order \<Rightarrow> real \<Rightarrow> real \<Rightarrow> py_error + LP_first_order" where
  "LP_first_order_init_impulse_matching self Te wc =
     (let ewt = exp (- wc * Te);
          self = self\<lparr>lp1_Cy1 := ewt\<rparr>;
          self = self\<lparr>lp1_Cx0 := 1 - ewt\<rparr>;
          self = self\<lparr>lp1_Cx1 := 0\<rparr>
      in Inr self)"

text \<open>
  \<^verbatim>\<open>__init__\<close> resets the state and then looks the method \<^verbatim>\<open>'init_' + transform\<close> up by
  name. The class has four attributes whose name starts with \<^verbatim>\<open>init_\<close>; for any other
  name \<^verbatim>\<open>getattr\<close> raises and no object is returned. The transform is always given
  here; the call that leaves it out is the call with \<^verbatim>\<open>'bilinear'\<close>.
\<close>

definition LP_first_order_init :: "real \<Rightarrow> real \<Rightarrow> string \<Rightarrow> py_error + LP_first_order" where
  "LP_first_order_init Te wc transform =
     (let self = LP_first_order_reset LP_first_order_new;
          name = ''init_'' @ transform
      in if name = ''init_bilinear'' then LP_first_order_init_bilinear self Te wc
         else if name = ''init_homographic'' then LP_first_order_init_homographic self Te wc
         else if name = ''init_step_matching'' then LP_first_order_init_step_matching self Te wc
         else if name = ''init_impulse_matching'' then
           LP_first_order_init_impulse_matching self Te wc
         else Inl (AttributeError name))"

definition LP_first_order_feed :: "LP_first_order \<Rightarrow> real \<Rightarrow> real \<times> LP_first_order" where
  "LP_first_order_feed self x_k0 =
     (let y_k0 = lp1_Cy1 self * lp1_y_k1 self + lp1_Cx0 self * x_k0
                   + lp1_Cx1 self * lp1_x_k1 self;
          self = self\<lparr>lp1_y_k1 := y_k0\<rparr>;
          self = self\<lparr>lp1_x_k1 := x_k0\<rparr>
      in (y_k0, self))"

text \<open>The list comprehension \<^verbatim>\<open>[ self._feed( x ) for x in input ]\<close>.\<close>

fun LP_first_order_feed_each ::
    "LP_first_order \<Rightarrow> real list \<Rightarrow> real list \<times> LP_first_order" where
  "LP_first_order_feed_each self [] = ([], self)"
| "LP_first_order_feed_each self (x # xs) =
     (let (y, self) = LP_first_order_feed self x;
          (ys, self) = LP_first_order_feed_each self xs
      in (y # ys, self))"

fun LP_first_order_call :: "LP_first_order \<Rightarrow> py_input \<Rightarrow> py_output \<times> LP_first_order" where
  "LP_first_order_call self (Iterable xs) =
     (let (ys, self) = LP_first_order_feed_each self xs in (PyList ys, self))"
| "LP_first_order_call self (Scalar x) =
     (let (y, self) = LP_first_order_feed self x in (Float y, self))"

subsection \<open>Second order low-pass filter\<close>

record LP_second_order =
  lp2_Cy1 :: real
  lp2_Cy2 :: real
  lp2_Cx0 :: real
  lp2_Cx1 :: real
  lp2_Cx2 :: real
  lp2_y_k1 :: real
  lp2_x_k1 :: real
  lp2_y_k2 :: real
  lp2_x_k2 :: real

definition LP_second_order_new :: LP_second_order where
  "LP_second_order_new =
     \<lparr>lp2_Cy1 = 0, lp2_Cy2 = 0, lp2_Cx0 = 0, lp2_Cx1 = 0, lp2_Cx2 = 0,
      lp2_y_k1 = 0, lp2_x_k1 = 0, lp2_y_k2 = 0, lp2_x_k2 = 0\<rparr>"

text \<open>The class body defines \<^verbatim>\<open>reset\<close> twice with the same text; the second one is bound.\<close>

definition LP_second_order_reset :: "LP_second_order \<Rightarrow> LP_second_order" where
  "LP_second_order_reset self =
     self\<lparr>lp2_y_k1 := 0, lp2_x_k1 := 0, lp2_y_k2 := 0, lp2_x_k2 := 0\<rparr>"

definition LP_second_order_init_bilinear ::
    "LP_second_order \<Rightarrow> real \<Rightarrow> real \<Rightarrow> real \<Rightarrow> py_error + LP_second_order" where
  "LP_second_order_init_bilinear self Te w0 Q =
     (let w2T2 = (w0 * Te) ^ 2;
          den = 2 * w0 * Te + 4 * Q + Q * w2T2
      in case truediv (2 * Q * (4 - w2T2)) den of
           Inl e \<Rightarrow> Inl e
         | Inr v \<Rightarrow>
             (let self = self\<lparr>lp2_Cy1 := v\<rparr>
              in case truediv (2 * w0 * Te - 4 * Q - Q * w2T2) den of
                   Inl e \<Rightarrow> Inl e
                 | Inr v \<Rightarrow>
                     (let self = self\<lparr>lp2_Cy2 := v\<rparr>
                      in case truediv (Q * w2T2) den of
                           Inl e \<Rightarrow> Inl e
                         | Inr v \<Rightarrow>
                             (let self = self\<lparr>lp2_Cx0 := v\<rparr>;
                                  self = self\<lparr>lp2_Cx1 := 2 * lp2_Cx0 self\<rparr>;
                                  self = self\<lparr>lp2_Cx2 := lp2_Cx0 self\<rparr>
                              in Inr self))))"

definition LP_second_order_init ::
    "real \<Rightarrow> real \<Rightarrow> real \<Rightarrow> string \<Rightarrow> py_error + LP_second_order" where
  "LP_second_order_init Te w0 Q transform =
     (let self = LP_second_order_reset LP_second_order_new;
          name = ''init_'' @ transform
      in if name = ''init_bilinear'' then LP_second_order_init_bilinear self Te w0 Q
         else Inl (AttributeError name))"

definition LP_second_order_feed :: "LP_second_order \<Rightarrow> real \<Rightarrow> real \<times> LP_second_order" where
  "LP_second_order_feed self x_k0 =
     (let y_k0 = lp2_Cy1 self * lp2_y_k1 self + lp2_Cy2 self * lp2_y_k2 self
                   + lp2_Cx0 self * x_k0 + lp2_Cx1 self * lp2_x_k1 self
                   + lp2_Cx2 self * lp2_x_k2 self;
          self = self\<lparr>lp2_y_k2 := lp2_y_k1 self\<rparr>;
          self = self\<lparr>lp2_y_k1 := y_k0\<rparr>;
          self = self\<lparr>lp2_x_k2 := lp2_x_k1 self\<rparr>;
          self = self\<lparr>lp2_x_k1 := x_k0\<rparr>
      in (y_k0, self))"

fun LP_second_order_feed_each ::
    "LP_second_order \<Rightarrow> real list \<Rightarrow> real list \<times> LP_second_order" where
  "LP_second_order_feed_each self [] = ([], self)"
| "LP_second_order_feed_each self (x # xs) =
     (let (y, self) = LP_second_order_feed self x;
          (ys, self) = LP_second_order_feed_each self xs
      in (y # ys, self))"

fun LP_second_order_call ::
    "LP_second_order \<Rightarrow> py_input \<Rightarrow> py_output \<times> LP_second_order" where
  "LP_second_order_call self (Iterable xs) =
     (let (ys, self) = LP_second_order_feed_each self xs in (PyList ys, self))"
| "LP_second_order_call self (Scalar x) =
     (let (y, self) = LP_second_order_feed self x in (Float y, self))"

subsection \<open>Moving average filter\<close>

record Moving_average =
  ma_N :: int
  ma_buffer :: "real list"
  ma_i :: int
  ma_y_k0 :: real

text \<open>
  \<^verbatim>\<open>[ 0 ]*N\<close> is the empty list when \<^verbatim>\<open>N\<close> is zero or negative. The limit that Python sets to
  the length of a list is left to the second part.
\<close>

definition Moving_average_reset :: "Moving_average \<Rightarrow> Moving_average" where
  "Moving_average_reset self =
     (let self = self\<lparr>ma_buffer := replicate (nat (ma_N self)) 0\<rparr>;
          self = self\<lparr>ma_i := 0\<rparr>;
          self = self\<lparr>ma_y_k0 := 0\<rparr>
      in self)"

text \<open>
  \<^verbatim>\<open>__init__\<close> stores \<^verbatim>\<open>N\<close> and calls \<^verbatim>\<open>reset\<close>, which assigns the three other attributes;
  it checks nothing and raises nothing.
\<close>

definition Moving_average_init :: "int \<Rightarrow> Moving_average" where
  "Moving_average_init N =
     Moving_average_reset \<lparr>ma_N = N, ma_buffer = [], ma_i = 0, ma_y_k0 = 0\<rparr>"

text \<open>
  \<^verbatim>\<open>_feed\<close> can raise at its first statement (the cursor is outside the buffer) and at its
  second (\<^verbatim>\<open>N\<close> is zero); the object keeps what was assigned before the exception, so the
  object after the call is returned in both cases.
\<close>

definition Moving_average_feed ::
    "Moving_average \<Rightarrow> real \<Rightarrow> (py_error + real) \<times> Moving_average" where
  "Moving_average_feed self x_k0 =
     (case list_index (ma_buffer self) (ma_i self) of
        Inl e \<Rightarrow> (Inl e, self)
      | Inr j \<Rightarrow>
          (let self = self\<lparr>ma_y_k0 := ma_y_k0 self - ma_buffer self ! j\<rparr>
           in case truediv x_k0 (real_of_int (ma_N self)) of
                Inl e \<Rightarrow> (Inl e, self)
              | Inr v \<Rightarrow>
                  (let self = self\<lparr>ma_buffer := (ma_buffer self)[j := v]\<rparr>;
                       self = self\<lparr>ma_y_k0 := ma_y_k0 self + ma_buffer self ! j\<rparr>;
                       self = self\<lparr>ma_i := ma_i self + 1\<rparr>;
                       self = (if ma_i self \<ge> ma_N self then self\<lparr>ma_i := 0\<rparr> else self)
                   in (Inr (ma_y_k0 self), self))))"

text \<open>The list comprehension stops at the first call of \<^verbatim>\<open>_feed\<close> that raises.\<close>

fun Moving_average_feed_each ::
    "Moving_average \<Rightarrow> real list \<Rightarrow> (py_error + real list) \<times> Moving_average" where
  "Moving_average_feed_each self [] = (Inr [], self)"
| "Moving_average_feed_each self (x # xs) =
     (case Moving_average_feed self x of
        (Inl e, self) \<Rightarrow> (Inl e, self)
      | (Inr y, self) \<Rightarrow>
          (case Moving_average_feed_each self xs of
             (Inl e, self) \<Rightarrow> (Inl e, self)
           | (Inr ys, self) \<Rightarrow> (Inr (y # ys), self)))"

fun Moving_average_call ::
    "Moving_average \<Rightarrow> py_input \<Rightarrow> (py_error + py_output) \<times> Moving_average" where
  "Moving_average_call self (Iterable xs) =
     (case Moving_average_feed_each self xs of
        (Inl e, self) \<Rightarrow> (Inl e, self)
      | (Inr ys, self) \<Rightarrow> (Inr (PyList ys), self))"
| "Moving_average_call self (Scalar x) =
     (case Moving_average_feed self x of
        (Inl e, self) \<Rightarrow> (Inl e, self)
      | (Inr y, self) \<Rightarrow> (Inr (Float y), self))"

subsection \<open>Feeding one element after the other\<close>

text \<open>
  The object after \<^verbatim>\<open>_feed\<close> has been called once for each element of \<open>xs\<close>, in order
  (for the moving average, an exception of one call is passed over here: the object
  keeps what that call assigned).
\<close>

definition LP_first_order_after :: "LP_first_order \<Rightarrow> real list \<Rightarrow> LP_first_order" where
  "LP_first_order_after self xs = foldl (\<lambda>self x. snd (LP_first_order_feed self x)) self xs"

definition LP_second_order_after :: "LP_second_order \<Rightarrow> real list \<Rightarrow> LP_second_order" where
  "LP_second_order_after self xs =
     foldl (\<lambda>self x. snd (LP_second_order_feed self x)) self xs"

definition Moving_average_after :: "Moving_average \<Rightarrow> real list \<Rightarrow> Moving_average" where
  "Moving_average_after self xs = foldl (\<lambda>self x. snd (Moving_average_feed self x)) self xs"

text \<open>The object after a series of calls of \<^verbatim>\<open>__call__\<close>, each on a number or a sequence.\<close>

definition LP_first_order_calls :: "LP_first_order \<Rightarrow> py_input list \<Rightarrow> LP_first_order" where
  "LP_first_order_calls self inputs =
     foldl (\<lambda>self inp. snd (LP_first_order_call self inp)) self inputs"

definition LP_second_order_calls ::
    "LP_second_order \<Rightarrow> py_input list \<Rightarrow> LP_second_order" where
  "LP_second_order_calls self inputs =
     foldl (\<lambda>self inp. snd (LP_second_order_call self inp)) self inputs"

definition Moving_average_calls :: "Moving_average \<Rightarrow> py_input list \<Rightarrow> Moving_average" where
  "Moving_average_calls self inputs =
     foldl (\<lambda>self inp. snd (Moving_average_call self inp)) self inputs"

text \<open>
  The objects that a construction with \<open>N \<ge> 1\<close> followed by calls can reach: the buffer
  has \<open>N\<close> slots and the cursor points at one of them.
\<close>

definition Moving_average_wf :: "Moving_average \<Rightarrow> bool" where
  "Moving_average_wf self \<longleftrightarrow>
     1 \<le> ma_N self \<and> int (length (ma_buffer self)) = ma_N self
     \<and> 0 \<le> ma_i self \<and> ma_i self < ma_N self"

subsection \<open>The mean of the last inputs\<close>

text \<open>
  The last \<open>n\<close> inputs when \<open>xs\<close> is what has been fed since the construction or the last
  reset, oldest first: the last \<open>n\<close> elements of \<open>xs\<close> preceded by \<open>n\<close> zeros, so that an
  input not yet fed counts as zero. Their arithmetic mean is what the specification says
  the moving average holds.
\<close>

definition zero_padded_last :: "nat \<Rightarrow> real list \<Rightarrow> real list" where
  "zero_padded_last n xs = drop (length xs) (replicate n 0 @ xs)"

definition mean_of_last :: "int \<Rightarrow> real list \<Rightarrow> real" where
  "mean_of_last N xs = sum_list (zero_padded_last (nat N) xs) / real_of_int N"

text \<open>
  The relation between the object and the inputs \<open>xs\<close> fed since the last reset: the slot
  at distance \<open>m\<close> after the cursor holds the \<open>m\<close>-th of the last \<open>N\<close> inputs divided by
  \<open>N\<close>, and the running sum is their mean.
\<close>

definition ma_inv :: "int \<Rightarrow> real list \<Rightarrow> Moving_average \<Rightarrow> bool" where
  "ma_inv N xs self \<longleftrightarrow>
     ma_N self = N \<and> length (ma_buffer self) = nat N
     \<and> ma_i self = int (length xs mod nat N)
     \<and> (\<forall>m<nat N. ma_buffer self ! ((length xs + m) mod nat N)
                     = zero_padded_last (nat N) xs ! m / real_of_int N)
     \<and> ma_y_k0 self = mean_of_last N xs"

subsection \<open>The response to a constant input\<close>


section \<open>The filters on Python's numbers\<close>

text \<open>
  The arguments that the module receives are Python numbers: \<^verbatim>\<open>int\<close>, of any size and
  exact, and \<^verbatim>\<open>float\<close>, the binary64 format of IEEE 754. This part embeds the same
  methods on these numbers, operation by operation: the result of an operation on floats
  is the exact result rounded to the nearest float, ties to the even one, an infinity
  beyond the range; an \<^verbatim>\<open>int\<close> that meets a \<^verbatim>\<open>float\<close> is converted first. The part above
  is this part with the rounding left out.

  Two things are left out here as well. The sign of a zero is not kept: no operation of
  the module tells the two zeros apart, and they compare equal. The functions of the C
  library behind \<^verbatim>\<open>math.tan\<close>, \<^verbatim>\<open>math.exp\<close> and \<^verbatim>\<open>**\<close> are taken to round correctly, which a
  library does up to the last bit; no property below depends on a digit of a tangent, an
  exponential or a square. A list of any length below \<open>2\<^sup>6\<^sup>3\<close> can be built: the memory of
  the machine is not a parameter.
\<close>

subsection \<open>Rounding to binary64\<close>

datatype py_float = Fin real | PInf | NInf | NaN

definition pow2 :: "int \<Rightarrow> real" where
  "pow2 k = 2 powi k"

text \<open>The nearest integer, a tie going to the even one.\<close>

definition round_half_even :: "real \<Rightarrow> int" where
  "round_half_even x =
     (let n = \<lfloor>x\<rfloor>; d = x - of_int n
      in if d < 1 / 2 then n else if 1 / 2 < d then n + 1
         else if even n then n else n + 1)"

text \<open>
  The exponent of the binade of \<open>x\<close>: \<open>2\<^sup>E \<le> |x| < 2\<^sup>E\<^sup>+\<^sup>1\<close>, and \<open>- 1022\<close> for the subnormal
  numbers. The floats of that binade are the multiples of \<open>2\<^sup>E\<^sup>-\<^sup>5\<^sup>2\<close>.
\<close>

definition binade :: "real \<Rightarrow> int" where
  "binade x = max \<lfloor>log 2 \<bar>x\<bar>\<rfloor> (- 1022)"

text \<open>Rounding to a multiple of \<open>2\<^sup>q\<close>; a result of magnitude \<open>2\<^sup>1\<^sup>0\<^sup>2\<^sup>4\<close> or more is an infinity.\<close>

definition round_to :: "int \<Rightarrow> real \<Rightarrow> py_float" where
  "round_to q x =
     (let r = of_int (round_half_even (x / pow2 q)) * pow2 q
      in if pow2 1024 \<le> r then PInf
         else if r \<le> - pow2 1024 then NInf
         else Fin r)"

definition round64 :: "real \<Rightarrow> py_float" where
  "round64 x = (if x = 0 then Fin 0 else round_to (binade x - 52) x)"

text \<open>The reals that are floats: those that rounding leaves as they are.\<close>

definition is_float64 :: "real \<Rightarrow> bool" where
  "is_float64 x \<longleftrightarrow> round64 x = Fin x"

subsection \<open>Arithmetic of \<^verbatim>\<open>float\<close>\<close>

fun fneg :: "py_float \<Rightarrow> py_float" where
  "fneg (Fin a) = Fin (- a)"
| "fneg PInf = NInf"
| "fneg NInf = PInf"
| "fneg NaN = NaN"

fun fadd :: "py_float \<Rightarrow> py_float \<Rightarrow> py_float" where
  "fadd NaN b = NaN"
| "fadd a NaN = NaN"
| "fadd PInf NInf = NaN"
| "fadd NInf PInf = NaN"
| "fadd PInf b = PInf"
| "fadd NInf b = NInf"
| "fadd a PInf = PInf"
| "fadd a NInf = NInf"
| "fadd (Fin a) (Fin b) = round64 (a + b)"

definition fsub :: "py_float \<Rightarrow> py_float \<Rightarrow> py_float" where
  "fsub a b = fadd a (fneg b)"

text \<open>An infinity times or over a finite number: the sign of the result, no number for zero.\<close>

definition inf_signed :: "py_float \<Rightarrow> real \<Rightarrow> py_float" where
  "inf_signed i a = (if a = 0 then NaN else if 0 < a then i else fneg i)"


text \<open>
  The quotient for a divisor that is not zero; Python raises on a zero divisor before it
  divides, see \<open>py_truediv\<close>.
\<close>

fun fdiv :: "py_float \<Rightarrow> py_float \<Rightarrow> py_float" where
  "fdiv NaN b = NaN"
| "fdiv a NaN = NaN"
| "fdiv (Fin a) (Fin b) = round64 (a / b)"
| "fdiv (Fin a) b = Fin 0"
| "fdiv a (Fin b) = inf_signed a b"
| "fdiv a b = NaN"

subsection \<open>Python's operators on \<^verbatim>\<open>int\<close> and \<^verbatim>\<open>float\<close>\<close>

datatype py_number = PyInt int | PyFloat py_float

text \<open>Sequencing of statements that can raise.\<close>

definition bind_err :: "'e + 'a \<Rightarrow> ('a \<Rightarrow> 'e + 'b) \<Rightarrow> 'e + 'b" where
  "bind_err m f = (case m of Inl e \<Rightarrow> Inl e | Inr a \<Rightarrow> f a)"

text \<open>The conversion of an operand to \<^verbatim>\<open>float\<close>: an \<^verbatim>\<open>int\<close> beyond the range raises.\<close>

definition to_float :: "py_number \<Rightarrow> py_error + py_float" where
  "to_float x =
     (case x of
        PyFloat a \<Rightarrow> Inr a
      | PyInt n \<Rightarrow>
          (case round64 (of_int n) of
             Fin r \<Rightarrow> Inr (Fin r)
           | _ \<Rightarrow> Inl OverflowError))"

definition float_op ::
    "(py_float \<Rightarrow> py_float \<Rightarrow> py_float) \<Rightarrow> py_number \<Rightarrow> py_number \<Rightarrow> py_error + py_number" where
  "float_op f x y =
     bind_err (to_float x) (\<lambda>a. bind_err (to_float y) (\<lambda>b. Inr (PyFloat (f a b))))"

fun py_add :: "py_number \<Rightarrow> py_number \<Rightarrow> py_error + py_number" where
  "py_add (PyInt m) (PyInt n) = Inr (PyInt (m + n))"
| "py_add x y = float_op fadd x y"

fun py_sub :: "py_number \<Rightarrow> py_number \<Rightarrow> py_error + py_number" where
  "py_sub (PyInt m) (PyInt n) = Inr (PyInt (m - n))"
| "py_sub x y = float_op fsub x y"


text \<open>
  \<^verbatim>\<open>x / y\<close>. The quotient of two \<^verbatim>\<open>int\<close> is their exact quotient rounded once, and raises
  when it is beyond the range. Otherwise the operands are converted, and a zero divisor,
  whatever the dividend, raises.
\<close>

fun py_truediv :: "py_number \<Rightarrow> py_number \<Rightarrow> py_error + py_number" where
  "py_truediv (PyInt m) (PyInt n) =
     (if n = 0 then Inl ZeroDivisionError
      else case round64 (of_int m / of_int n) of
             Fin r \<Rightarrow> Inr (PyFloat (Fin r))
           | _ \<Rightarrow> Inl OverflowError)"
| "py_truediv x y =
     bind_err (to_float x) (\<lambda>a. bind_err (to_float y) (\<lambda>b.
       if b = Fin 0 then Inl ZeroDivisionError else Inr (PyFloat (fdiv a b))))"








text \<open>The numbers that are not an infinity or a NaN, and their value.\<close>

fun finite_number :: "py_number \<Rightarrow> bool" where
  "finite_number (PyInt n) = True"
| "finite_number (PyFloat (Fin a)) = True"
| "finite_number (PyFloat a) = False"

fun number_value :: "py_number \<Rightarrow> real" where
  "number_value (PyInt n) = of_int n"
| "number_value (PyFloat (Fin a)) = a"
| "number_value (PyFloat a) = 0"

subsection \<open>First order low-pass filter on numbers\<close>












subsection \<open>Second order low-pass filter on numbers\<close>






subsection \<open>Moving average filter on numbers\<close>

record Moving_average_py =
  pma_N :: int
  pma_buffer :: "py_number list"
  pma_i :: int
  pma_y_k0 :: py_number



text \<open>
  \<^verbatim>\<open>_feed\<close> returns the object as the statements before the exception have left it, as
  in the first part.
\<close>

definition Moving_average_py_feed ::
    "Moving_average_py \<Rightarrow> py_number \<Rightarrow> (py_error + py_number) \<times> Moving_average_py" where
  "Moving_average_py_feed self x_k0 =
     (case list_index (pma_buffer self) (pma_i self) of
        Inl e \<Rightarrow> (Inl e, self)
      | Inr j \<Rightarrow>
          (case py_sub (pma_y_k0 self) (pma_buffer self ! j) of
             Inl e \<Rightarrow> (Inl e, self)
           | Inr d \<Rightarrow>
               (let self = self\<lparr>pma_y_k0 := d\<rparr>
                in case py_truediv x_k0 (PyInt (pma_N self)) of
                     Inl e \<Rightarrow> (Inl e, self)
                   | Inr v \<Rightarrow>
                       (let self = self\<lparr>pma_buffer := (pma_buffer self)[j := v]\<rparr>
                        in case py_add (pma_y_k0 self) (pma_buffer self ! j) of
                             Inl e \<Rightarrow> (Inl e, self)
                           | Inr s \<Rightarrow>
                               (let self = self\<lparr>pma_y_k0 := s\<rparr>;
                                    self = self\<lparr>pma_i := pma_i self + 1\<rparr>;
                                    self = (if pma_i self \<ge> pma_N self
                                            then self\<lparr>pma_i := 0\<rparr> else self)
                                in (Inr (pma_y_k0 self), self))))))"

fun Moving_average_py_feed_each ::
    "Moving_average_py \<Rightarrow> py_number list
       \<Rightarrow> (py_error + py_number list) \<times> Moving_average_py" where
  "Moving_average_py_feed_each self [] = (Inr [], self)"
| "Moving_average_py_feed_each self (x # xs) =
     (case Moving_average_py_feed self x of
        (Inl e, self) \<Rightarrow> (Inl e, self)
      | (Inr y, self) \<Rightarrow>
          (case Moving_average_py_feed_each self xs of
             (Inl e, self) \<Rightarrow> (Inl e, self)
           | (Inr ys, self) \<Rightarrow> (Inr (y # ys), self)))"

text \<open>The floats that are zero or more, and those that are at least the smallest float above
  zero.\<close>

definition float_nonneg :: "py_float \<Rightarrow> bool" where
  "float_nonneg a \<longleftrightarrow> a = PInf \<or> (\<exists>r. a = Fin r \<and> 0 \<le> r)"

definition float_pos :: "py_float \<Rightarrow> bool" where
  "float_pos a \<longleftrightarrow> a = PInf \<or> (\<exists>r. a = Fin r \<and> pow2 (- 1074) \<le> r)"

text \<open>
  The numbers that keep the arithmetic of the moving average exact: \<open>k 2\<^sup>e\<close> for an integer
  \<open>k\<close> of magnitude \<open>K\<close> at most.
\<close>

definition on_grid :: "int \<Rightarrow> int \<Rightarrow> real \<Rightarrow> bool" where
  "on_grid e K x \<longleftrightarrow> (\<exists>k. \<bar>k\<bar> \<le> K \<and> x = of_int k * pow2 e)"

text \<open>
  The numbers whose conversion to \<^verbatim>\<open>float\<close> keeps their value: the finite floats, and the
  integers that are floats.
\<close>

definition exact_number :: "py_number \<Rightarrow> bool" where
  "exact_number a \<longleftrightarrow> to_float a = Inr (Fin (number_value a))"

text \<open>The moving average with the value of each of its numbers, an object of the first part.\<close>

definition Moving_average_py_values :: "Moving_average_py \<Rightarrow> Moving_average" where
  "Moving_average_py_values self =
     \<lparr>ma_N = pma_N self, ma_buffer = map number_value (pma_buffer self),
      ma_i = pma_i self, ma_y_k0 = number_value (pma_y_k0 self)\<rparr>"

section \<open>Properties\<close>

text \<open>
  C10. Calling a filter on an empty sequence returns the empty list and leaves every
  attribute of the object as it was; this holds for the three filters and every state.
\<close>

theorem call_empty_sequence:
  "LP_first_order_call f1 (Iterable []) = (PyList [], f1)
   \<and> LP_second_order_call f2 (Iterable []) = (PyList [], f2)
   \<and> Moving_average_call m (Iterable []) = (Inr (PyList []), m)"
  by simp

text \<open>
  C9. A moving average freshly constructed with \<open>N = 3\<close> and called on \<open>[3, 6, 9, 12]\<close>
  returns \<open>[1, 3, 6, 9]\<close>: the first two outputs average over a history padded with
  zeros. The object after the call is given as well.
\<close>

theorem moving_average_scenario:
  "Moving_average_call (Moving_average_init 3) (Iterable [3, 6, 9, 12])
     = (Inr (PyList [1, 3, 6, 9]),
        \<lparr>ma_N = 3, ma_buffer = [4, 2, 3], ma_i = 1, ma_y_k0 = 9\<rparr>)"
  by (simp add: Moving_average_init_def Moving_average_reset_def Moving_average_feed_def
      list_index_def truediv_def numeral_3_eq_3)

text \<open>
  C5. A transform name that the filter does not know makes the construction fail: the
  lookup of \<^verbatim>\<open>'init_' + transform\<close> raises (Python's \<^verbatim>\<open>AttributeError\<close>, naming the missing
  method), for the first order filter when the name is none of bilinear, homographic,
  step_matching and impulse_matching, for the second order filter when it is not bilinear.
  The failure does not depend on the numeric parameters, so no coefficient has been
  computed (no division has been attempted), and the result holds no filter object.
\<close>

theorem unknown_transform_fails:
  "(transform \<notin> {''bilinear'', ''homographic'', ''step_matching'', ''impulse_matching''}
      \<longrightarrow> LP_first_order_init Te wc transform = Inl (AttributeError (''init_'' @ transform)))
   \<and> (transform \<noteq> ''bilinear''
      \<longrightarrow> LP_second_order_init Te w0 Q transform
            = Inl (AttributeError (''init_'' @ transform)))"
  by (simp add: LP_first_order_init_def LP_second_order_init_def)

theorem unknown_transform_fails_witness:
  "LP_first_order_init 1 1 ''euler'' = Inl (AttributeError ''init_euler'')
   \<and> LP_second_order_init 1 1 1 ''homographic'' = Inl (AttributeError ''init_homographic'')"
  using unknown_transform_fails[of "''euler''" 1 1 1 1]
    unknown_transform_fails[of "''homographic''" 1 1 1 1]
  by simp

subsection \<open>A call on a sequence feeds the elements in order\<close>

lemma map_upt_shift: "map f [0..<Suc n] = f 0 # map (\<lambda>k. f (Suc k)) [0..<n]"
  by (simp add: map_upt_Suc del: upt_Suc)

lemma LP_first_order_feed_each_eq:
  "LP_first_order_feed_each self xs =
     (map (\<lambda>k. fst (LP_first_order_feed (LP_first_order_after self (take k xs)) (xs ! k)))
        [0..<length xs],
      LP_first_order_after self xs)"
proof (induction xs arbitrary: self)
  case Nil
  show ?case
    by (simp add: LP_first_order_after_def)
next
  case (Cons x xs)
  obtain y s where f: "LP_first_order_feed self x = (y, s)"
    by (cases "LP_first_order_feed self x")
  have a: "LP_first_order_after self (x # zs) = LP_first_order_after s zs" for zs
    by (simp add: LP_first_order_after_def f)
  show ?case
    unfolding length_Cons map_upt_shift
    by (simp add: f Cons.IH a) (simp add: LP_first_order_after_def f)
qed

lemma LP_second_order_feed_each_eq:
  "LP_second_order_feed_each self xs =
     (map (\<lambda>k. fst (LP_second_order_feed (LP_second_order_after self (take k xs)) (xs ! k)))
        [0..<length xs],
      LP_second_order_after self xs)"
proof (induction xs arbitrary: self)
  case Nil
  show ?case
    by (simp add: LP_second_order_after_def)
next
  case (Cons x xs)
  obtain y s where f: "LP_second_order_feed self x = (y, s)"
    by (cases "LP_second_order_feed self x")
  have a: "LP_second_order_after self (x # zs) = LP_second_order_after s zs" for zs
    by (simp add: LP_second_order_after_def f)
  show ?case
    unfolding length_Cons map_upt_shift
    by (simp add: f Cons.IH a) (simp add: LP_second_order_after_def f)
qed

text \<open>The moving average, when no call of \<^verbatim>\<open>_feed\<close> raises.\<close>

lemma Moving_average_feed_each_ok:
  "(\<forall>k<length xs. \<exists>y.
       fst (Moving_average_feed (Moving_average_after self (take k xs)) (xs ! k)) = Inr y)
   \<Longrightarrow> Moving_average_feed_each self xs =
     (Inr (map (\<lambda>k. projr (fst (Moving_average_feed
                                  (Moving_average_after self (take k xs)) (xs ! k))))
             [0..<length xs]),
      Moving_average_after self xs)"
proof (induction xs arbitrary: self)
  case Nil
  show ?case
    by (simp add: Moving_average_after_def)
next
  case (Cons x xs)
  from Cons.prems
  have "\<exists>y. fst (Moving_average_feed (Moving_average_after self (take 0 (x # xs)))
                 ((x # xs) ! 0)) = Inr y"
    by blast
  then obtain y s where f: "Moving_average_feed self x = (Inr y, s)"
    by (cases "Moving_average_feed self x") (auto simp: Moving_average_after_def)
  have a: "Moving_average_after self (x # zs) = Moving_average_after s zs" for zs
    by (simp add: Moving_average_after_def f)
  have "\<forall>k<length xs. \<exists>y.
          fst (Moving_average_feed (Moving_average_after s (take k xs)) (xs ! k)) = Inr y"
  proof (intro allI impI)
    fix k
    assume "k < length xs"
    then have "Suc k < length (x # xs)"
      by simp
    from Cons.prems[rule_format, OF this]
    show "\<exists>y. fst (Moving_average_feed (Moving_average_after s (take k xs)) (xs ! k)) = Inr y"
      by (simp add: a)
  qed
  from Cons.IH[OF this] show ?case
    unfolding length_Cons map_upt_shift
    by (simp add: f a) (simp add: Moving_average_after_def f)
qed

text \<open>The moving average, when the call for the element at position \<open>k\<close> is the first to raise.\<close>

lemma Moving_average_feed_each_err:
  "k < length xs \<Longrightarrow>
   (\<forall>j<k. \<exists>y.
       fst (Moving_average_feed (Moving_average_after self (take j xs)) (xs ! j)) = Inr y) \<Longrightarrow>
   fst (Moving_average_feed (Moving_average_after self (take k xs)) (xs ! k)) = Inl e \<Longrightarrow>
   Moving_average_feed_each self xs = (Inl e, Moving_average_after self (take (Suc k) xs))"
proof (induction xs arbitrary: self k)
  case Nil
  then show ?case
    by simp
next
  case (Cons x xs)
  show ?case
  proof (cases k)
    case 0
    with Cons.prems(3) obtain s where f: "Moving_average_feed self x = (Inl e, s)"
      by (cases "Moving_average_feed self x") (auto simp: Moving_average_after_def)
    show ?thesis
      using 0 by (simp add: f Moving_average_after_def)
  next
    case (Suc k')
    from Cons.prems(2) Suc
    have "\<exists>y. fst (Moving_average_feed (Moving_average_after self (take 0 (x # xs)))
                   ((x # xs) ! 0)) = Inr y"
      by blast
    then obtain y s where f: "Moving_average_feed self x = (Inr y, s)"
      by (cases "Moving_average_feed self x") (auto simp: Moving_average_after_def)
    have a: "Moving_average_after self (x # zs) = Moving_average_after s zs" for zs
      by (simp add: Moving_average_after_def f)
    have 1: "k' < length xs"
      using Cons.prems(1) Suc by simp
    have 2: "\<forall>j<k'. \<exists>y.
               fst (Moving_average_feed (Moving_average_after s (take j xs)) (xs ! j)) = Inr y"
    proof (intro allI impI)
      fix j
      assume "j < k'"
      then have "Suc j < k"
        using Suc by simp
      from Cons.prems(2)[rule_format, OF this]
      show "\<exists>y. fst (Moving_average_feed (Moving_average_after s (take j xs)) (xs ! j)) = Inr y"
        by (simp add: a)
    qed
    have 3: "fst (Moving_average_feed (Moving_average_after s (take k' xs)) (xs ! k')) = Inl e"
      using Cons.prems(3) Suc by (simp add: a)
    from Cons.IH[OF 1 2 3] show ?thesis
      using Suc by (simp add: f a)
  qed
qed

lemma Moving_average_feed_wf:
  assumes "Moving_average_wf self"
  shows "\<not> isl (fst (Moving_average_feed self x))
         \<and> Moving_average_wf (snd (Moving_average_feed self x))"
  using assms
  by (auto simp: Moving_average_wf_def Moving_average_feed_def list_index_def truediv_def
      Let_def)

lemma Moving_average_after_wf:
  "Moving_average_wf self \<Longrightarrow> Moving_average_wf (Moving_average_after self xs)"
proof (induction xs arbitrary: self)
  case Nil
  then show ?case
    by (simp add: Moving_average_after_def)
next
  case (Cons x xs)
  have "Moving_average_after self (x # xs)
          = Moving_average_after (snd (Moving_average_feed self x)) xs"
    by (simp add: Moving_average_after_def)
  with Cons show ?case
    by (simp add: Moving_average_feed_wf)
qed

lemma not_isl_iff: "\<not> isl r \<longleftrightarrow> (\<exists>y. r = Inr y)"
  by (cases r) simp_all

lemma Moving_average_feed_each_find:
  "Moving_average_feed_each self xs =
     (case find (\<lambda>k. isl (fst (Moving_average_feed
                                 (Moving_average_after self (take k xs)) (xs ! k))))
             [0..<length xs] of
        None \<Rightarrow>
          (Inr (map (\<lambda>k. projr (fst (Moving_average_feed
                                       (Moving_average_after self (take k xs)) (xs ! k))))
                  [0..<length xs]),
           Moving_average_after self xs)
      | Some k \<Rightarrow>
          (Inl (projl (fst (Moving_average_feed
                              (Moving_average_after self (take k xs)) (xs ! k)))),
           Moving_average_after self (take (Suc k) xs)))"
proof (cases "find (\<lambda>k. isl (fst (Moving_average_feed
                 (Moving_average_after self (take k xs)) (xs ! k)))) [0..<length xs]")
  case None
  then have "\<forall>k<length xs. \<exists>y.
      fst (Moving_average_feed (Moving_average_after self (take k xs)) (xs ! k)) = Inr y"
    by (auto simp: find_None_iff not_isl_iff)
  from Moving_average_feed_each_ok[OF this] None show ?thesis
    by simp
next
  case (Some k)
  then obtain i where i: "i < length [0..<length xs]"
      "isl (fst (Moving_average_feed
                   (Moving_average_after self (take ([0..<length xs] ! i) xs))
                   (xs ! ([0..<length xs] ! i))))"
      "k = [0..<length xs] ! i"
      "\<forall>j<i. \<not> isl (fst (Moving_average_feed
                   (Moving_average_after self (take ([0..<length xs] ! j) xs))
                   (xs ! ([0..<length xs] ! j))))"
    unfolding find_Some_iff by blast
  have k: "k < length xs" and ik: "i = k"
    using i(1,3) by simp_all
  have "isl (fst (Moving_average_feed (Moving_average_after self (take k xs)) (xs ! k)))"
    using i(2) k ik by simp
  then obtain e
    where e: "fst (Moving_average_feed (Moving_average_after self (take k xs)) (xs ! k)) = Inl e"
    by (cases "fst (Moving_average_feed (Moving_average_after self (take k xs)) (xs ! k))")
      simp_all
  have pre: "\<forall>j<k. \<exists>y.
      fst (Moving_average_feed (Moving_average_after self (take j xs)) (xs ! j)) = Inr y"
  proof (intro allI impI)
    fix j
    assume j: "j < k"
    then have "j < i"
      using ik by simp
    from i(4)[rule_format, OF this] j k
    show "\<exists>y. fst (Moving_average_feed (Moving_average_after self (take j xs)) (xs ! j)) = Inr y"
      by (simp add: not_isl_iff)
  qed
  from Moving_average_feed_each_err[OF k pre e] Some e show ?thesis
    by simp
qed

lemma Moving_average_feed_each_wf:
  assumes "Moving_average_wf self"
  shows "Moving_average_feed_each self xs =
          (Inr (map (\<lambda>k. projr (fst (Moving_average_feed
                                       (Moving_average_after self (take k xs)) (xs ! k))))
                  [0..<length xs]),
           Moving_average_after self xs)"
proof -
  have "\<forall>k<length xs. \<exists>y.
      fst (Moving_average_feed (Moving_average_after self (take k xs)) (xs ! k)) = Inr y"
    using Moving_average_feed_wf[OF Moving_average_after_wf[OF assms]]
    by (simp add: not_isl_iff)
  from Moving_average_feed_each_ok[OF this] show ?thesis .
qed

text \<open>
  C4. Calling a filter on a sequence returns, in order and with the same length, the
  output of \<^verbatim>\<open>_feed\<close> for each element, every element being fed to the object as the
  elements before it have left it, and the object after the call is the object after
  feeding the elements one by one; a call on a single number is one \<^verbatim>\<open>_feed\<close>. This
  holds for the two low-pass filters in every state. For the moving average it holds in
  every state as well, a call that raises included: the call on the sequence raises what
  the first failing \<^verbatim>\<open>_feed\<close> raises and leaves the object as that \<^verbatim>\<open>_feed\<close> left it. No
  \<^verbatim>\<open>_feed\<close> raises on an object with \<open>N \<ge> 1\<close>, a buffer of \<open>N\<close> slots and the cursor within.
\<close>

theorem call_on_sequence_feeds_in_order:
  "LP_first_order_call f1 (Iterable xs) =
      (PyList (map (\<lambda>k. fst (LP_first_order_feed (LP_first_order_after f1 (take k xs)) (xs ! k)))
                 [0..<length xs]),
       LP_first_order_after f1 xs)
   \<and> LP_first_order_call f1 (Scalar x) =
        (Float (fst (LP_first_order_feed f1 x)), snd (LP_first_order_feed f1 x))
   \<and> LP_second_order_call f2 (Iterable xs) =
      (PyList (map (\<lambda>k. fst (LP_second_order_feed (LP_second_order_after f2 (take k xs))
                               (xs ! k)))
                 [0..<length xs]),
       LP_second_order_after f2 xs)
   \<and> LP_second_order_call f2 (Scalar x) =
        (Float (fst (LP_second_order_feed f2 x)), snd (LP_second_order_feed f2 x))
   \<and> Moving_average_call m (Iterable xs) =
      (case find (\<lambda>k. isl (fst (Moving_average_feed
                                   (Moving_average_after m (take k xs)) (xs ! k))))
              [0..<length xs] of
         None \<Rightarrow>
           (Inr (PyList (map (\<lambda>k. projr (fst (Moving_average_feed
                                       (Moving_average_after m (take k xs)) (xs ! k))))
                           [0..<length xs])),
            Moving_average_after m xs)
       | Some k \<Rightarrow>
           (Inl (projl (fst (Moving_average_feed
                               (Moving_average_after m (take k xs)) (xs ! k)))),
            Moving_average_after m (take (Suc k) xs)))
   \<and> (Moving_average_wf m \<longrightarrow>
        Moving_average_call m (Iterable xs) =
          (Inr (PyList (map (\<lambda>k. projr (fst (Moving_average_feed
                                       (Moving_average_after m (take k xs)) (xs ! k))))
                          [0..<length xs])),
           Moving_average_after m xs)
        \<and> Moving_average_call m (Scalar x) =
            (Inr (Float (projr (fst (Moving_average_feed m x)))),
             snd (Moving_average_feed m x)))"
proof (intro conjI impI)
  show "LP_first_order_call f1 (Iterable xs) =
      (PyList (map (\<lambda>k. fst (LP_first_order_feed (LP_first_order_after f1 (take k xs)) (xs ! k)))
                 [0..<length xs]),
       LP_first_order_after f1 xs)"
    by (simp add: LP_first_order_feed_each_eq)
  show "LP_first_order_call f1 (Scalar x) =
        (Float (fst (LP_first_order_feed f1 x)), snd (LP_first_order_feed f1 x))"
    by (simp add: split_beta)
  show "LP_second_order_call f2 (Iterable xs) =
      (PyList (map (\<lambda>k. fst (LP_second_order_feed (LP_second_order_after f2 (take k xs))
                               (xs ! k)))
                 [0..<length xs]),
       LP_second_order_after f2 xs)"
    by (simp add: LP_second_order_feed_each_eq)
  show "LP_second_order_call f2 (Scalar x) =
        (Float (fst (LP_second_order_feed f2 x)), snd (LP_second_order_feed f2 x))"
    by (simp add: split_beta)
  show "Moving_average_call m (Iterable xs) =
      (case find (\<lambda>k. isl (fst (Moving_average_feed
                                   (Moving_average_after m (take k xs)) (xs ! k))))
              [0..<length xs] of
         None \<Rightarrow>
           (Inr (PyList (map (\<lambda>k. projr (fst (Moving_average_feed
                                       (Moving_average_after m (take k xs)) (xs ! k))))
                           [0..<length xs])),
            Moving_average_after m xs)
       | Some k \<Rightarrow>
           (Inl (projl (fst (Moving_average_feed
                               (Moving_average_after m (take k xs)) (xs ! k)))),
            Moving_average_after m (take (Suc k) xs)))"
    by (simp add: Moving_average_feed_each_find split: option.splits)
next
  assume wf: "Moving_average_wf m"
  show "Moving_average_call m (Iterable xs) =
          (Inr (PyList (map (\<lambda>k. projr (fst (Moving_average_feed
                                       (Moving_average_after m (take k xs)) (xs ! k))))
                          [0..<length xs])),
           Moving_average_after m xs)"
    by (simp add: Moving_average_feed_each_wf[OF wf])
  from Moving_average_feed_wf[OF wf, of x]
  obtain y where "fst (Moving_average_feed m x) = Inr y"
    by (auto simp: not_isl_iff)
  then show "Moving_average_call m (Scalar x) =
            (Inr (Float (projr (fst (Moving_average_feed m x)))),
             snd (Moving_average_feed m x))"
    by (cases "Moving_average_feed m x") simp
qed

theorem call_on_sequence_feeds_in_order_witness:
  "Moving_average_wf (Moving_average_init 2)
   \<and> Moving_average_call (Moving_average_init 2) (Iterable [4, 6]) =
       (Inr (PyList [2, 5]), Moving_average_after (Moving_average_init 2) [4, 6])
   \<and> Moving_average_call (Moving_average_init 2) (Scalar 4) =
       (Inr (Float 2), snd (Moving_average_feed (Moving_average_init 2) 4))"
proof -
  have wf: "Moving_average_wf (Moving_average_init 2)"
    by (simp add: Moving_average_wf_def Moving_average_init_def Moving_average_reset_def)
  have i: "Moving_average_init 2 = \<lparr>ma_N = 2, ma_buffer = [0, 0], ma_i = 0, ma_y_k0 = 0\<rparr>"
    by (simp add: Moving_average_init_def Moving_average_reset_def numeral_2_eq_2)
  have u: "[0..<length [4, 6 :: real]] = [0, 1]"
    by (simp add: upt_rec)
  show ?thesis
    using wf call_on_sequence_feeds_in_order[of _ "[4, 6]" 4 _ "Moving_average_init 2"]
    unfolding u
    by (simp add: i Moving_average_after_def Moving_average_feed_def list_index_def
        truediv_def)
qed

subsection \<open>What a construction returns\<close>

lemma LP_first_order_init_bilinear_result:
  "LP_first_order_init Te wc ''bilinear'' =
     (if 2 + wc * Te = 0 then Inl ZeroDivisionError
      else Inr \<lparr>lp1_Cy1 = (2 - wc * Te) / (2 + wc * Te),
                lp1_Cx0 = wc * Te / (2 + wc * Te),
                lp1_Cx1 = wc * Te / (2 + wc * Te),
                lp1_y_k1 = 0, lp1_x_k1 = 0\<rparr>)"
  by (simp add: LP_first_order_init_def LP_first_order_init_bilinear_def truediv_def
      LP_first_order_reset_def LP_first_order_new_def Let_def)




lemma LP_second_order_init_bilinear_result:
  "LP_second_order_init Te w0 Q ''bilinear'' =
     (let w2T2 = (w0 * Te)\<^sup>2;
          den = 2 * w0 * Te + 4 * Q + Q * w2T2;
          Cx0 = Q * w2T2 / den
      in if den = 0 then Inl ZeroDivisionError
         else Inr \<lparr>lp2_Cy1 = 2 * Q * (4 - w2T2) / den,
                   lp2_Cy2 = (2 * w0 * Te - 4 * Q - Q * w2T2) / den,
                   lp2_Cx0 = Cx0, lp2_Cx1 = 2 * Cx0, lp2_Cx2 = Cx0,
                   lp2_y_k1 = 0, lp2_x_k1 = 0, lp2_y_k2 = 0, lp2_x_k2 = 0\<rparr>)"
  by (simp add: LP_second_order_init_def LP_second_order_init_bilinear_def
      LP_second_order_reset_def LP_second_order_new_def truediv_def Let_def)

lemma Moving_average_init_result:
  "Moving_average_init N =
     \<lparr>ma_N = N, ma_buffer = replicate (nat N) 0, ma_i = 0, ma_y_k0 = 0\<rparr>"
  by (simp add: Moving_average_init_def Moving_average_reset_def Let_def)

text \<open>A new filter is in the state that \<^verbatim>\<open>reset\<close> produces.\<close>

lemma LP_first_order_init_reset:
  assumes "LP_first_order_init Te wc transform = Inr f"
  shows "LP_first_order_reset f = f"
proof -
  have "lp1_y_k1 f = 0 \<and> lp1_x_k1 f = 0"
    using assms
    by (auto simp: LP_first_order_init_def LP_first_order_init_bilinear_def
        LP_first_order_init_homographic_def LP_first_order_init_step_matching_def
        LP_first_order_init_impulse_matching_def LP_first_order_reset_def
        LP_first_order_new_def truediv_def Let_def split: if_splits)
  then show ?thesis
    by (simp add: LP_first_order_reset_def)
qed

lemma LP_second_order_init_reset:
  assumes "LP_second_order_init Te w0 Q transform = Inr f"
  shows "LP_second_order_reset f = f"
proof -
  have "lp2_y_k1 f = 0 \<and> lp2_x_k1 f = 0 \<and> lp2_y_k2 f = 0 \<and> lp2_x_k2 f = 0"
    using assms
    by (auto simp: LP_second_order_init_def LP_second_order_init_bilinear_def
        LP_second_order_reset_def LP_second_order_new_def truediv_def Let_def
        split: if_splits)
  then show ?thesis
    by (simp add: LP_second_order_reset_def)
qed

lemma Moving_average_init_reset:
  "Moving_average_reset (Moving_average_init N) = Moving_average_init N"
  by (simp add: Moving_average_init_def Moving_average_reset_def Let_def)

subsection \<open>Reset\<close>

text \<open>Feeding changes neither a coefficient nor \<open>N\<close>, so it does not change what \<^verbatim>\<open>reset\<close> gives.\<close>

lemma LP_first_order_reset_feed:
  "LP_first_order_reset (snd (LP_first_order_feed self x)) = LP_first_order_reset self"
  by (simp add: LP_first_order_reset_def LP_first_order_feed_def Let_def)

lemma LP_first_order_reset_after:
  "LP_first_order_reset (LP_first_order_after self xs) = LP_first_order_reset self"
  by (induction xs arbitrary: self)
    (simp_all add: LP_first_order_after_def LP_first_order_reset_feed)

lemma LP_first_order_reset_call:
  "LP_first_order_reset (snd (LP_first_order_call self inp)) = LP_first_order_reset self"
  by (cases inp)
    (simp_all add: LP_first_order_feed_each_eq LP_first_order_reset_after
      LP_first_order_reset_feed split_beta)

lemma LP_first_order_reset_calls:
  "LP_first_order_reset (LP_first_order_calls self inputs) = LP_first_order_reset self"
  by (induction inputs arbitrary: self)
    (simp_all add: LP_first_order_calls_def LP_first_order_reset_call)

lemma LP_second_order_reset_feed:
  "LP_second_order_reset (snd (LP_second_order_feed self x)) = LP_second_order_reset self"
  by (simp add: LP_second_order_reset_def LP_second_order_feed_def Let_def)

lemma LP_second_order_reset_after:
  "LP_second_order_reset (LP_second_order_after self xs) = LP_second_order_reset self"
  by (induction xs arbitrary: self)
    (simp_all add: LP_second_order_after_def LP_second_order_reset_feed)

lemma LP_second_order_reset_call:
  "LP_second_order_reset (snd (LP_second_order_call self inp)) = LP_second_order_reset self"
  by (cases inp)
    (simp_all add: LP_second_order_feed_each_eq LP_second_order_reset_after
      LP_second_order_reset_feed split_beta)

lemma LP_second_order_reset_calls:
  "LP_second_order_reset (LP_second_order_calls self inputs) = LP_second_order_reset self"
  by (induction inputs arbitrary: self)
    (simp_all add: LP_second_order_calls_def LP_second_order_reset_call)

lemma Moving_average_reset_feed:
  "Moving_average_reset (snd (Moving_average_feed self x)) = Moving_average_reset self"
  by (simp add: Moving_average_reset_def Moving_average_feed_def truediv_def Let_def
      split: sum.splits)

lemma Moving_average_reset_after:
  "Moving_average_reset (Moving_average_after self xs) = Moving_average_reset self"
  by (induction xs arbitrary: self)
    (simp_all add: Moving_average_after_def Moving_average_reset_feed)

lemma Moving_average_reset_feed_each:
  "Moving_average_reset (snd (Moving_average_feed_each self xs)) = Moving_average_reset self"
  by (simp add: Moving_average_feed_each_find Moving_average_reset_after split: option.splits)

lemma Moving_average_reset_call:
  "Moving_average_reset (snd (Moving_average_call self inp)) = Moving_average_reset self"
proof (cases inp)
  case (Scalar x)
  have "snd (Moving_average_call self (Scalar x)) = snd (Moving_average_feed self x)"
    by (simp split: prod.splits sum.splits)
  then show ?thesis
    using Scalar by (simp add: Moving_average_reset_feed)
next
  case (Iterable xs)
  have "snd (Moving_average_call self (Iterable xs)) = snd (Moving_average_feed_each self xs)"
    by (simp split: prod.splits sum.splits)
  then show ?thesis
    using Iterable by (simp add: Moving_average_reset_feed_each)
qed

lemma Moving_average_reset_calls:
  "Moving_average_reset (Moving_average_calls self inputs) = Moving_average_reset self"
  by (induction inputs arbitrary: self)
    (simp_all add: Moving_average_calls_def Moving_average_reset_call)

text \<open>
  C7. \<^verbatim>\<open>reset\<close> sets the state variables to zero: the previous input and output of the
  first order filter, the two previous inputs and outputs of the second order filter,
  and for the moving average every slot of the buffer, the cursor and the running sum.
  It leaves the coefficients and \<open>N\<close> as they are, and it cannot fail: it is a total
  function of the object, the source having no statement that raises (\<^verbatim>\<open>[ 0 ]*N\<close> is
  defined for every integer). Consequently a filter that has been constructed, called
  any number of times and then reset is the filter as constructed, and a call on it
  returns what the same call returns on a new filter with the same parameters.
\<close>

theorem reset_gives_fresh_filter:
  "lp1_y_k1 (LP_first_order_reset f1) = 0 \<and> lp1_x_k1 (LP_first_order_reset f1) = 0
   \<and> lp1_Cy1 (LP_first_order_reset f1) = lp1_Cy1 f1
   \<and> lp1_Cx0 (LP_first_order_reset f1) = lp1_Cx0 f1
   \<and> lp1_Cx1 (LP_first_order_reset f1) = lp1_Cx1 f1
   \<and> lp2_y_k1 (LP_second_order_reset f2) = 0 \<and> lp2_x_k1 (LP_second_order_reset f2) = 0
   \<and> lp2_y_k2 (LP_second_order_reset f2) = 0 \<and> lp2_x_k2 (LP_second_order_reset f2) = 0
   \<and> lp2_Cy1 (LP_second_order_reset f2) = lp2_Cy1 f2
   \<and> lp2_Cy2 (LP_second_order_reset f2) = lp2_Cy2 f2
   \<and> lp2_Cx0 (LP_second_order_reset f2) = lp2_Cx0 f2
   \<and> lp2_Cx1 (LP_second_order_reset f2) = lp2_Cx1 f2
   \<and> lp2_Cx2 (LP_second_order_reset f2) = lp2_Cx2 f2
   \<and> ma_buffer (Moving_average_reset m) = replicate (nat (ma_N m)) 0
   \<and> ma_i (Moving_average_reset m) = 0 \<and> ma_y_k0 (Moving_average_reset m) = 0
   \<and> ma_N (Moving_average_reset m) = ma_N m
   \<and> (LP_first_order_init Te wc transform = Inr g1 \<longrightarrow>
        LP_first_order_reset (LP_first_order_calls g1 inputs) = g1
        \<and> LP_first_order_call (LP_first_order_reset (LP_first_order_calls g1 inputs)) inp
            = LP_first_order_call g1 inp)
   \<and> (LP_second_order_init Te w0 Q transform = Inr g2 \<longrightarrow>
        LP_second_order_reset (LP_second_order_calls g2 inputs) = g2
        \<and> LP_second_order_call (LP_second_order_reset (LP_second_order_calls g2 inputs)) inp
            = LP_second_order_call g2 inp)
   \<and> Moving_average_reset (Moving_average_calls (Moving_average_init N) inputs)
        = Moving_average_init N
   \<and> Moving_average_call
        (Moving_average_reset (Moving_average_calls (Moving_average_init N) inputs)) inp
        = Moving_average_call (Moving_average_init N) inp"
proof -
  have a: "lp1_y_k1 (LP_first_order_reset f1) = 0 \<and> lp1_x_k1 (LP_first_order_reset f1) = 0
      \<and> lp1_Cy1 (LP_first_order_reset f1) = lp1_Cy1 f1
      \<and> lp1_Cx0 (LP_first_order_reset f1) = lp1_Cx0 f1
      \<and> lp1_Cx1 (LP_first_order_reset f1) = lp1_Cx1 f1"
    by (simp add: LP_first_order_reset_def)
  have b: "lp2_y_k1 (LP_second_order_reset f2) = 0 \<and> lp2_x_k1 (LP_second_order_reset f2) = 0
      \<and> lp2_y_k2 (LP_second_order_reset f2) = 0 \<and> lp2_x_k2 (LP_second_order_reset f2) = 0
      \<and> lp2_Cy1 (LP_second_order_reset f2) = lp2_Cy1 f2
      \<and> lp2_Cy2 (LP_second_order_reset f2) = lp2_Cy2 f2
      \<and> lp2_Cx0 (LP_second_order_reset f2) = lp2_Cx0 f2
      \<and> lp2_Cx1 (LP_second_order_reset f2) = lp2_Cx1 f2
      \<and> lp2_Cx2 (LP_second_order_reset f2) = lp2_Cx2 f2"
    by (simp add: LP_second_order_reset_def)
  have c: "ma_buffer (Moving_average_reset m) = replicate (nat (ma_N m)) 0
      \<and> ma_i (Moving_average_reset m) = 0 \<and> ma_y_k0 (Moving_average_reset m) = 0
      \<and> ma_N (Moving_average_reset m) = ma_N m"
    by (simp add: Moving_average_reset_def Let_def)
  have d: "LP_first_order_reset (LP_first_order_calls g1 inputs) = g1"
    if "LP_first_order_init Te wc transform = Inr g1"
    using LP_first_order_init_reset[OF that] by (simp add: LP_first_order_reset_calls)
  have e: "LP_second_order_reset (LP_second_order_calls g2 inputs) = g2"
    if "LP_second_order_init Te w0 Q transform = Inr g2"
    using LP_second_order_init_reset[OF that] by (simp add: LP_second_order_reset_calls)
  have f: "Moving_average_reset (Moving_average_calls (Moving_average_init N) inputs)
      = Moving_average_init N"
    by (simp add: Moving_average_reset_calls Moving_average_init_reset)
  show ?thesis
    using a b c d e f by simp
qed

theorem reset_gives_fresh_filter_witness:
  "LP_first_order_init 1 2 ''bilinear'' =
     Inr \<lparr>lp1_Cy1 = 0, lp1_Cx0 = 1 / 2, lp1_Cx1 = 1 / 2, lp1_y_k1 = 0, lp1_x_k1 = 0\<rparr>
   \<and> LP_first_order_reset
        (LP_first_order_calls
           \<lparr>lp1_Cy1 = 0, lp1_Cx0 = 1 / 2, lp1_Cx1 = 1 / 2, lp1_y_k1 = 0, lp1_x_k1 = 0\<rparr>
           [Scalar 1, Iterable [2, 3]])
      = \<lparr>lp1_Cy1 = 0, lp1_Cx0 = 1 / 2, lp1_Cx1 = 1 / 2, lp1_y_k1 = 0, lp1_x_k1 = 0\<rparr>
   \<and> LP_second_order_reset
        (LP_second_order_calls
           \<lparr>lp2_Cy1 = 6 / 7, lp2_Cy2 = - 3 / 7, lp2_Cx0 = 1 / 7, lp2_Cx1 = 2 / 7,
            lp2_Cx2 = 1 / 7, lp2_y_k1 = 0, lp2_x_k1 = 0, lp2_y_k2 = 0, lp2_x_k2 = 0\<rparr>
           [Iterable [7], Scalar 1])
      = \<lparr>lp2_Cy1 = 6 / 7, lp2_Cy2 = - 3 / 7, lp2_Cx0 = 1 / 7, lp2_Cx1 = 2 / 7,
          lp2_Cx2 = 1 / 7, lp2_y_k1 = 0, lp2_x_k1 = 0, lp2_y_k2 = 0, lp2_x_k2 = 0\<rparr>"
proof -
  have i1: "LP_first_order_init 1 2 ''bilinear'' =
     Inr \<lparr>lp1_Cy1 = 0, lp1_Cx0 = 1 / 2, lp1_Cx1 = 1 / 2, lp1_y_k1 = 0, lp1_x_k1 = 0\<rparr>"
    by (simp add: LP_first_order_init_bilinear_result)
  have i2: "LP_second_order_init 1 1 1 ''bilinear'' =
     Inr \<lparr>lp2_Cy1 = 6 / 7, lp2_Cy2 = - 3 / 7, lp2_Cx0 = 1 / 7, lp2_Cx1 = 2 / 7,
          lp2_Cx2 = 1 / 7, lp2_y_k1 = 0, lp2_x_k1 = 0, lp2_y_k2 = 0, lp2_x_k2 = 0\<rparr>"
    by (simp add: LP_second_order_init_bilinear_result Let_def)
  from i1 i2
    reset_gives_fresh_filter[where Te = 1 and wc = 2 and transform = "''bilinear''"
      and ?w0.0 = 1 and Q = 1
      and ?g1.0 = "\<lparr>lp1_Cy1 = 0, lp1_Cx0 = 1 / 2, lp1_Cx1 = 1 / 2, lp1_y_k1 = 0,
                     lp1_x_k1 = 0\<rparr>"
      and ?g2.0 = "\<lparr>lp2_Cy1 = 6 / 7, lp2_Cy2 = - 3 / 7, lp2_Cx0 = 1 / 7, lp2_Cx1 = 2 / 7,
          lp2_Cx2 = 1 / 7, lp2_y_k1 = 0, lp2_x_k1 = 0, lp2_y_k2 = 0, lp2_x_k2 = 0\<rparr>"
      and inputs = "[Scalar 1, Iterable [2, 3]]"]
    reset_gives_fresh_filter[where Te = 1 and wc = 2 and transform = "''bilinear''"
      and ?w0.0 = 1 and Q = 1
      and ?g1.0 = "\<lparr>lp1_Cy1 = 0, lp1_Cx0 = 1 / 2, lp1_Cx1 = 1 / 2, lp1_y_k1 = 0,
                     lp1_x_k1 = 0\<rparr>"
      and ?g2.0 = "\<lparr>lp2_Cy1 = 6 / 7, lp2_Cy2 = - 3 / 7, lp2_Cx0 = 1 / 7, lp2_Cx1 = 2 / 7,
          lp2_Cx2 = 1 / 7, lp2_y_k1 = 0, lp2_x_k1 = 0, lp2_y_k2 = 0, lp2_x_k2 = 0\<rparr>"
      and inputs = "[Iterable [7], Scalar 1]"]
  show ?thesis
    by blast
qed

subsection \<open>The moving average holds the mean of the last inputs\<close>

lemma length_zero_padded_last: "length (zero_padded_last n xs) = n"
  by (simp add: zero_padded_last_def)

lemma zero_padded_last_Nil: "zero_padded_last n [] = replicate n 0"
  by (simp add: zero_padded_last_def)

lemma zero_padded_last_snoc:
  assumes "0 < n"
  shows "zero_padded_last n (xs @ [x]) = tl (zero_padded_last n xs) @ [x]"
proof -
  let ?H = "replicate n 0 @ xs"
  have "zero_padded_last n (xs @ [x]) = drop (Suc (length xs)) (?H @ [x])"
    by (simp add: zero_padded_last_def)
  also have "\<dots> = drop (Suc (length xs)) ?H @ drop (Suc (length xs) - length ?H) [x]"
    by (rule drop_append)
  also have "Suc (length xs) - length ?H = 0"
    using assms by simp
  also have "drop (Suc (length xs)) ?H = tl (drop (length xs) ?H)"
    by (simp only: drop_Suc tl_drop)
  finally show ?thesis
    by (simp add: zero_padded_last_def)
qed

text \<open>Once \<open>n\<close> inputs have been fed the padding is gone; before that only zeros are added.\<close>

lemma zero_padded_last_full:
  "n \<le> length xs \<Longrightarrow> zero_padded_last n xs = drop (length xs - n) xs"
  by (simp add: zero_padded_last_def)

lemma zero_padded_last_short:
  "length xs \<le> n \<Longrightarrow> zero_padded_last n xs = replicate (n - length xs) 0 @ xs"
  by (simp add: zero_padded_last_def)

lemma sum_list_tl_snoc:
  fixes L :: "real list"
  assumes "L \<noteq> []"
  shows "sum_list (tl L @ [x]) = sum_list L - L ! 0 + x"
  using assms by (cases L) simp_all

lemma mod_shift_neq:
  fixes a d n :: nat
  assumes "0 < d" "d < n"
  shows "(a + d) mod n \<noteq> a mod n"
proof
  assume e: "(a + d) mod n = a mod n"
  have "(a + d) mod n = (a mod n + d) mod n"
    by (simp add: mod_add_left_eq)
  with e have r: "(a mod n + d) mod n = a mod n"
    by simp
  have lt: "a mod n < n"
    using assms by simp
  show False
  proof (cases "a mod n + d < n")
    case True
    then show False
      using r assms by simp
  next
    case False
    then have "(a mod n + d) mod n = (a mod n + d - n) mod n"
      by (simp add: le_mod_geq)
    also have "\<dots> = a mod n + d - n"
      using lt assms by (intro mod_less) linarith
    finally have "(a mod n + d) mod n = a mod n + d - n" .
    with r show False
      using assms False by linarith
  qed
qed

lemma ma_inv_reset:
  assumes "1 \<le> ma_N self"
  shows "ma_inv (ma_N self) [] (Moving_average_reset self)"
  using assms
  by (simp add: ma_inv_def Moving_average_reset_def mean_of_last_def zero_padded_last_Nil
      sum_list_replicate Let_def)

text \<open>One call of \<^verbatim>\<open>_feed\<close> returns the mean of the last inputs and keeps the relation.\<close>

lemma ma_inv_feed:
  assumes N: "1 \<le> N" and inv: "ma_inv N xs self"
  shows "fst (Moving_average_feed self x) = Inr (mean_of_last N (xs @ [x]))
         \<and> ma_inv N (xs @ [x]) (snd (Moving_average_feed self x))"
proof -
  define n where "n = nat N"
  define L where "L = zero_padded_last n xs"
  define i where "i = length xs mod n"
  define v where "v = x / real_of_int N"
  have n: "0 < n" "int n = N"
    using N by (simp_all add: n_def)
  have lenL: "length L = n"
    by (simp add: L_def length_zero_padded_last)
  then have Lne: "L \<noteq> []"
    using n by auto
  have i: "i < n"
    using n by (simp add: i_def)
  have fN: "ma_N self = N" and fl: "length (ma_buffer self) = n"
    and fi: "ma_i self = int i"
    and fb: "\<And>m. m < n \<Longrightarrow> ma_buffer self ! ((length xs + m) mod n) = L ! m / real_of_int N"
    and fy: "ma_y_k0 self = sum_list L / real_of_int N"
    using inv by (simp_all add: ma_inv_def n_def L_def i_def mean_of_last_def)
  have b0: "ma_buffer self ! i = L ! 0 / real_of_int N"
    using fb[of 0] n by (simp add: i_def)
  have idx: "list_index (ma_buffer self) (int i) = Inr i"
    using i by (simp add: list_index_def fl)
  have N0: "real_of_int N \<noteq> 0"
    using N by simp
  define self' where "self' = self\<lparr>ma_buffer := (ma_buffer self)[i := v],
      ma_y_k0 := ma_y_k0 self - ma_buffer self ! i + v,
      ma_i := (if int i + 1 \<ge> N then 0 else int i + 1)\<rparr>"
  have feed: "Moving_average_feed self x = (Inr (ma_y_k0 self'), self')"
    using i N0 fl
    by (simp add: Moving_average_feed_def idx truediv_def Let_def fN fi self'_def v_def)
  have L': "zero_padded_last n (xs @ [x]) = tl L @ [x]"
    using n by (simp add: zero_padded_last_snoc L_def)
  have y': "ma_y_k0 self' = mean_of_last N (xs @ [x])"
  proof -
    have "mean_of_last N (xs @ [x]) = sum_list (tl L @ [x]) / real_of_int N"
      by (simp add: mean_of_last_def L' flip: n_def)
    also have "\<dots> = sum_list L / real_of_int N - L ! 0 / real_of_int N + x / real_of_int N"
      by (simp only: sum_list_tl_snoc[OF Lne] diff_divide_distrib add_divide_distrib)
    finally show ?thesis
      by (simp add: self'_def fy b0 v_def)
  qed
  have i': "ma_i self' = int (length (xs @ [x]) mod n)"
  proof -
    have "Suc (length xs) mod n = (if Suc i = n then 0 else Suc i)"
      by (simp add: mod_Suc i_def)
    moreover have "int i + 1 \<ge> N \<longleftrightarrow> Suc i = n"
      using i n by linarith
    ultimately show ?thesis
      by (simp add: self'_def)
  qed
  have b': "ma_buffer self' ! ((length (xs @ [x]) + m) mod n)
              = zero_padded_last n (xs @ [x]) ! m / real_of_int N" if m: "m < n" for m
  proof (cases "Suc m = n")
    case True
    then have "length (xs @ [x]) + m = length xs + n"
      by simp
    then have "(length (xs @ [x]) + m) mod n = i"
      by (simp only: i_def mod_add_self2)
    moreover have "length (tl L) = m"
      using True lenL by simp
    then have "(tl L @ [x]) ! m = x"
      using nth_append_length[of "tl L" x "[]"] by simp
    ultimately show ?thesis
      using i fl by (simp add: self'_def L' v_def)
  next
    case False
    then have sm: "Suc m < n"
      using m by simp
    have "(length xs + Suc m) mod n \<noteq> length xs mod n"
      by (rule mod_shift_neq) (use sm in simp_all)
    then have ne: "(length (xs @ [x]) + m) mod n \<noteq> i"
      by (simp add: i_def)
    have "ma_buffer self' ! ((length (xs @ [x]) + m) mod n)
            = ma_buffer self ! ((length xs + Suc m) mod n)"
      using ne by (simp add: self'_def)
    also have "\<dots> = L ! Suc m / real_of_int N"
      by (rule fb[OF sm])
    also have "L ! Suc m = (tl L @ [x]) ! m"
    proof -
      have "m < length (tl L)"
        using sm lenL by simp
      then show ?thesis
        by (simp add: nth_append nth_tl)
    qed
    finally show ?thesis
      by (simp add: L')
  qed
  have "ma_inv N (xs @ [x]) self'"
    unfolding ma_inv_def
    using y' i' b' fl fN by (simp add: self'_def flip: n_def)
  then show ?thesis
    by (simp add: feed y')
qed

lemma Moving_average_after_snoc:
  "Moving_average_after self (xs @ [x])
     = snd (Moving_average_feed (Moving_average_after self xs) x)"
  by (simp add: Moving_average_after_def)

lemma ma_inv_after:
  assumes "1 \<le> N" "ma_inv N [] self"
  shows "ma_inv N xs (Moving_average_after self xs)"
proof (induction xs rule: rev_induct)
  case Nil
  show ?case
    using assms(2) by (simp add: Moving_average_after_def)
next
  case (snoc x xs)
  show ?case
    unfolding Moving_average_after_snoc
    using ma_inv_feed[OF assms(1) snoc.IH] by simp
qed

lemma ma_inv_wf:
  assumes "1 \<le> N" "ma_inv N xs self"
  shows "Moving_average_wf self"
proof -
  have "length xs mod nat N < nat N"
    using assms(1) by simp
  then have "int (length xs mod nat N) < N"
    using assms(1) by linarith
  then show ?thesis
    using assms by (simp add: ma_inv_def Moving_average_wf_def)
qed

text \<open>From a reset object with \<open>N \<ge> 1\<close>: the state after feeding, the next output, a call.\<close>

lemma Moving_average_reset_mean:
  assumes N: "1 \<le> ma_N old"
  shows "ma_y_k0 (Moving_average_after (Moving_average_reset old) xs)
           = mean_of_last (ma_N old) xs"
    and "Moving_average_feed (Moving_average_after (Moving_average_reset old) xs) x
           = (Inr (mean_of_last (ma_N old) (xs @ [x])),
              Moving_average_after (Moving_average_reset old) (xs @ [x]))"
    and "Moving_average_call (Moving_average_reset old) (Iterable xs)
           = (Inr (PyList (map (\<lambda>k. mean_of_last (ma_N old) (take (Suc k) xs))
                             [0..<length xs])),
              Moving_average_after (Moving_average_reset old) xs)"
proof -
  let ?s = "Moving_average_reset old"
  have inv: "ma_inv (ma_N old) ys (Moving_average_after ?s ys)" for ys
    by (rule ma_inv_after[OF N ma_inv_reset[OF N]])
  show "ma_y_k0 (Moving_average_after ?s xs) = mean_of_last (ma_N old) xs"
    using inv[of xs] by (simp add: ma_inv_def)
  have step: "fst (Moving_average_feed (Moving_average_after ?s ys) y)
                = Inr (mean_of_last (ma_N old) (ys @ [y]))" for ys y
    using ma_inv_feed[OF N inv] by simp
  show "Moving_average_feed (Moving_average_after ?s xs) x
           = (Inr (mean_of_last (ma_N old) (xs @ [x])), Moving_average_after ?s (xs @ [x]))"
    using step[of xs x] by (simp add: Moving_average_after_snoc prod_eq_iff)
  have wf: "Moving_average_wf ?s"
    using ma_inv_wf[OF N ma_inv_reset[OF N]] .
  have "map (\<lambda>k. projr (fst (Moving_average_feed (Moving_average_after ?s (take k xs)) (xs ! k))))
          [0..<length xs]
        = map (\<lambda>k. mean_of_last (ma_N old) (take (Suc k) xs)) [0..<length xs]"
    by (rule map_cong) (simp_all add: step take_Suc_conv_app_nth)
  then show "Moving_average_call ?s (Iterable xs)
           = (Inr (PyList (map (\<lambda>k. mean_of_last (ma_N old) (take (Suc k) xs))
                             [0..<length xs])),
              Moving_average_after ?s xs)"
    by (simp add: Moving_average_feed_each_wf[OF wf])
qed

subsection \<open>Bounds on a tangent\<close>



section \<open>Properties of the arithmetic\<close>

subsection \<open>Powers of two and rounding\<close>

lemma pow2_pos: "0 < pow2 k"
  by (simp add: pow2_def)

lemma pow2_nonneg: "0 \<le> pow2 k"
  by (simp add: pow2_def)

lemma pow2_neq_0: "pow2 k \<noteq> 0"
  by (simp add: pow2_def)

lemma pow2_add: "pow2 (a + b) = pow2 a * pow2 b"
  by (simp add: pow2_def power_int_add)


lemma pow2_0: "pow2 0 = 1"
  by (simp add: pow2_def)

lemma pow2_1: "pow2 1 = 2"
  by (simp add: pow2_def)

lemma pow2_less_iff: "pow2 a < pow2 b \<longleftrightarrow> a < b"
proof
  assume "pow2 a < pow2 b"
  show "a < b"
  proof (rule ccontr)
    assume "\<not> a < b"
    then have "b \<le> a" by simp
    then have "pow2 b \<le> pow2 a"
      unfolding pow2_def by (intro power_int_increasing) simp_all
    with \<open>pow2 a < pow2 b\<close> show False by simp
  qed
next
  assume "a < b"
  then show "pow2 a < pow2 b"
    unfolding pow2_def by (intro power_int_strict_increasing) simp_all
qed

lemma pow2_le_iff: "pow2 a \<le> pow2 b \<longleftrightarrow> a \<le> b"
  using pow2_less_iff[of b a] by (simp only: not_less[symmetric])

lemmas pow2_simps =
  pow2_pos pow2_nonneg pow2_neq_0 pow2_0 pow2_1 pow2_less_iff pow2_le_iff

lemma pow2_nat: "0 \<le> k \<Longrightarrow> pow2 k = of_int (2 ^ nat k)"
  by (simp add: pow2_def power_int_def)

lemma round_half_even_of_int: "round_half_even (of_int k) = k"
  by (simp add: round_half_even_def)





lemma floor_log2_eq:
  fixes x :: real
  assumes "pow2 E \<le> \<bar>x\<bar>" "\<bar>x\<bar> < pow2 (E + 1)"
  shows "\<lfloor>log 2 \<bar>x\<bar>\<rfloor> = E"
proof -
  have "0 < pow2 E"
    by (rule pow2_pos)
  then have pos: "0 < \<bar>x\<bar>"
    using assms(1) by linarith
  have "(2::real) powr real_of_int E = pow2 E" "(2::real) powr (real_of_int E + 1) = pow2 (E + 1)"
    using powr_real_of_int'[of 2 E] powr_real_of_int'[of 2 "E + 1"] by (simp_all add: pow2_def)
  then show ?thesis
    using assms pos by (simp add: floor_log_eq_powr_iff)
qed

lemma floor_log2_bounds:
  fixes x :: real
  assumes "x \<noteq> 0"
  shows "pow2 \<lfloor>log 2 \<bar>x\<bar>\<rfloor> \<le> \<bar>x\<bar>" "\<bar>x\<bar> < pow2 (\<lfloor>log 2 \<bar>x\<bar>\<rfloor> + 1)"
proof -
  have pos: "0 < \<bar>x\<bar>" using assms by simp
  define E where "E = \<lfloor>log 2 \<bar>x\<bar>\<rfloor>"
  have "(2::real) powr real_of_int E = pow2 E" "(2::real) powr (real_of_int E + 1) = pow2 (E + 1)"
    using powr_real_of_int'[of 2 E] powr_real_of_int'[of 2 "E + 1"] by (simp_all add: pow2_def)
  moreover have "2 powr real_of_int E \<le> \<bar>x\<bar> \<and> \<bar>x\<bar> < 2 powr (real_of_int E + 1)"
    using floor_log_eq_powr_iff[of "\<bar>x\<bar>" 2 E] pos by (simp add: E_def)
  ultimately show "pow2 \<lfloor>log 2 \<bar>x\<bar>\<rfloor> \<le> \<bar>x\<bar>" "\<bar>x\<bar> < pow2 (\<lfloor>log 2 \<bar>x\<bar>\<rfloor> + 1)"
    by (simp_all add: E_def)
qed

lemma binade_normal:
  fixes x :: real
  assumes "pow2 E \<le> \<bar>x\<bar>" "\<bar>x\<bar> < pow2 (E + 1)" "- 1022 \<le> E"
  shows "binade x = E"
  using floor_log2_eq[OF assms(1,2)] assms(3) by (simp add: binade_def)






lemma binade_abs_less:
  assumes "x \<noteq> 0"
  shows "\<bar>x\<bar> < pow2 (binade x + 1)"
proof -
  have "\<lfloor>log 2 \<bar>x\<bar>\<rfloor> + 1 \<le> binade x + 1"
    by (simp add: binade_def)
  then have "pow2 (\<lfloor>log 2 \<bar>x\<bar>\<rfloor> + 1) \<le> pow2 (binade x + 1)"
    by (simp only: pow2_le_iff)
  with floor_log2_bounds(2)[OF assms] show ?thesis
    by linarith
qed

lemma binade_le:
  assumes "x \<noteq> 0" "\<bar>x\<bar> < pow2 (E + 1)" "- 1022 \<le> E"
  shows "binade x \<le> E"
proof -
  have "pow2 \<lfloor>log 2 \<bar>x\<bar>\<rfloor> < pow2 (E + 1)"
    using floor_log2_bounds(1)[OF assms(1)] assms(2) by linarith
  then have "\<lfloor>log 2 \<bar>x\<bar>\<rfloor> < E + 1"
    by (simp only: pow2_less_iff)
  then show ?thesis
    using assms(3) by (simp add: binade_def)
qed





lemma round_to_exact:
  assumes "x = of_int m * pow2 q" "\<bar>x\<bar> < pow2 1024"
  shows "round_to q x = Fin x"
proof -
  have "x / pow2 q = of_int m"
    using assms(1) by (simp add: pow2_neq_0)
  then have "of_int (round_half_even (x / pow2 q)) * pow2 q = x"
    using assms(1) by (simp add: round_half_even_of_int)
  then show ?thesis
    using assms(2) unfolding round_to_def Let_def by (simp add: abs_less_iff not_le)
qed

lemma pow2_53: "pow2 53 = 2 ^ 53"
  by (simp add: pow2_nat)

lemma round64_grid:
  assumes k: "\<bar>k\<bar> \<le> 2 ^ 53" and e: "- 1074 \<le> e" "e \<le> 970"
  shows "round64 (of_int k * pow2 e) = Fin (of_int k * pow2 e)"
proof (cases "k = 0")
  case True
  then show ?thesis
    by (simp add: round64_def)
next
  case False
  define x where "x = of_int k * pow2 e"
  have x0: "x \<noteq> 0"
    using False by (simp add: x_def pow2_neq_0)
  have ax: "\<bar>x\<bar> = of_int \<bar>k\<bar> * pow2 e"
    by (simp add: x_def abs_mult pow2_nonneg)
  have "of_int \<bar>k\<bar> \<le> (2 ^ 53 :: real)"
    using k by (metis of_int_le_iff of_int_numeral of_int_power)
  then have "\<bar>x\<bar> \<le> pow2 53 * pow2 e"
    unfolding ax pow2_53 by (intro mult_right_mono) (simp_all add: pow2_nonneg)
  also have "\<dots> = pow2 (e + 53)"
    by (simp add: pow2_add)
  also have "\<dots> \<le> pow2 1023"
    using e by (simp only: pow2_le_iff)
  finally have le1023: "\<bar>x\<bar> \<le> pow2 1023" .
  have "pow2 1023 < pow2 1024"
    by (simp only: pow2_less_iff)
  with le1023 have small: "\<bar>x\<bar> < pow2 1024"
    by linarith
  have "\<exists>m. x = of_int m * pow2 (binade x - 52)"
  proof (cases "\<bar>k\<bar> = 2 ^ 53")
    case True
    then have "of_int \<bar>k\<bar> = (2 ^ 53 :: real)"
      by (metis of_int_numeral of_int_power)
    then have axp: "\<bar>x\<bar> = pow2 (e + 53)"
      by (simp add: ax pow2_add pow2_53)
    have "pow2 (e + 53) < pow2 (e + 53 + 1)"
      by (simp add: pow2_less_iff)
    then have b: "binade x = e + 53"
      using e by (intro binade_normal) (simp_all add: axp)
    have "x = of_int (k div 2) * pow2 (e + 1)"
    proof -
      have "even k"
        using True by (metis even_abs_add_iff even_add even_numeral even_power zero_less_numeral)
      then have "of_int k = 2 * (of_int (k div 2) :: real)"
        by (metis dvd_mult_div_cancel of_int_mult of_int_numeral)
      moreover have "pow2 (e + 1) = 2 * pow2 e"
        by (simp add: pow2_add pow2_1)
      ultimately show ?thesis
        by (simp add: x_def)
    qed
    then show ?thesis
      unfolding b by (intro exI[of _ "k div 2"]) (simp add: add.commute)
  next
    case False
    then have "\<bar>k\<bar> < 2 ^ 53"
      using k by simp
    then have "of_int \<bar>k\<bar> < (2 ^ 53 :: real)"
      by (metis of_int_less_iff of_int_numeral of_int_power)
    then have "\<bar>x\<bar> < pow2 53 * pow2 e"
      unfolding ax pow2_53 by (intro mult_strict_right_mono) (simp_all add: pow2_pos)
    also have "\<dots> = pow2 (e + 52 + 1)"
      by (simp add: pow2_add)
    finally have "binade x \<le> e + 52"
      using e x0 by (intro binade_le) simp_all
    then have d: "0 \<le> e - (binade x - 52)"
      by simp
    have "pow2 e = pow2 (e - (binade x - 52)) * pow2 (binade x - 52)"
      by (simp flip: pow2_add)
    also have "pow2 (e - (binade x - 52)) = of_int (2 ^ nat (e - (binade x - 52)))"
      by (rule pow2_nat[OF d])
    finally have "x = of_int (k * 2 ^ nat (e - (binade x - 52))) * pow2 (binade x - 52)"
      by (simp add: x_def)
    then show ?thesis
      by blast
  qed
  then obtain m where m: "x = of_int m * pow2 (binade x - 52)"
    by blast
  have "round64 x = round_to (binade x - 52) x"
    using x0 by (simp add: round64_def)
  also have "\<dots> = Fin x"
    by (rule round_to_exact[OF m small])
  finally show ?thesis
    by (simp add: x_def)
qed

subsection \<open>Signs and ranges of rounded results\<close>

lemma round_half_even_ge:
  assumes "of_int M \<le> z"
  shows "M \<le> round_half_even z"
proof -
  have "M \<le> \<lfloor>z\<rfloor>"
    using assms by (simp add: le_floor_iff)
  moreover have "\<lfloor>z\<rfloor> \<le> round_half_even z"
    by (simp add: round_half_even_def Let_def)
  ultimately show ?thesis
    by simp
qed








lemma float_pos_nonneg: "float_pos a \<Longrightarrow> float_nonneg a"
  using pow2_pos[of "- 1074"] by (auto simp: float_pos_def float_nonneg_def)




subsection \<open>Floats\<close>

lemma is_float64_grid:
  "\<bar>k\<bar> \<le> 2 ^ 53 \<Longrightarrow> - 1074 \<le> e \<Longrightarrow> e \<le> 970 \<Longrightarrow> is_float64 (of_int k * pow2 e)"
  by (simp add: is_float64_def round64_grid)









section \<open>Properties of the filters on Python's numbers\<close>

subsection \<open>What a construction computes from floats\<close>








subsection \<open>Signs of sums and products\<close>








subsection \<open>Coefficients of the first order filter\<close>






subsection \<open>Coefficients of the second order filter\<close>





subsection \<open>Parameters are not checked\<close>




subsection \<open>Rounding at particular numbers\<close>





subsection \<open>A first order filter that stalls in floats\<close>








subsection \<open>Response of the first order filter to a constant input, in exact arithmetic\<close>










end
